theory Spec2Isabelle
  imports Complex_Main
begin

section \<open>JavaScript values\<close>

text \<open>
  The component \<^verbatim>\<open>NetworkFee.tsx\<close> decides every branch by JavaScript truthiness and
  compares fees with \<^verbatim>\<open>===\<close>, so the values are modelled with exactly the structure
  these two operations look at.

  A JavaScript number is an IEEE double. Every finite double is a rational, so the finite
  numbers are embedded in \<^typ>\<open>rat\<close>; \<open>Finite 0\<close> stands for both zeros (they are
  \<^verbatim>\<open>===\<close> to each other and both falsy, and nothing here divides by them).
\<close>

datatype jsnum = NaN | Infinity | NegInfinity | Finite rat

text \<open>\<^verbatim>\<open>ToBoolean\<close> on a number: false for \<^verbatim>\<open>0\<close>, \<^verbatim>\<open>-0\<close> and \<^verbatim>\<open>NaN\<close>.\<close>

fun num_truthy :: "jsnum \<Rightarrow> bool" where
  "num_truthy NaN = False"
| "num_truthy (Finite q) = (q \<noteq> 0)"
| "num_truthy Infinity = True"
| "num_truthy NegInfinity = True"

text \<open>\<^verbatim>\<open>===\<close> on two numbers: \<^verbatim>\<open>NaN\<close> is equal to nothing, itself included.\<close>

definition strictEquals :: "jsnum \<Rightarrow> jsnum \<Rightarrow> bool" where
  "strictEquals a b = (a \<noteq> NaN \<and> b \<noteq> NaN \<and> a = b)"

text \<open>
  The values a fee field of a transaction can hold (ethers' \<^verbatim>\<open>BigNumberish\<close>, or
  nothing). \<open>JObject s\<close> is an object (a \<^verbatim>\<open>BigNumber\<close>, a byte array) whose conversion
  to a primitive yields the string \<open>s\<close>.
\<close>

datatype jsval =
    JUndefined
  | JNull
  | JNumber jsnum
  | JString string
  | JBigInt int
  | JObject string

fun ToBoolean :: "jsval \<Rightarrow> bool" where
  "ToBoolean JUndefined = False"
| "ToBoolean JNull = False"
| "ToBoolean (JNumber n) = num_truthy n"
| "ToBoolean (JString s) = (s \<noteq> [])"
| "ToBoolean (JBigInt i) = (i \<noteq> 0)"
| "ToBoolean (JObject s) = True"

text \<open>A value that may be \<^verbatim>\<open>undefined\<close> or \<^verbatim>\<open>null\<close>, where the code tells the two apart.\<close>

datatype 'a nullable = JS_undefined | JS_null | JS_val 'a

text \<open>\<^verbatim>\<open>x == null\<close>: true for \<^verbatim>\<open>null\<close> and for \<^verbatim>\<open>undefined\<close>.\<close>

fun eq_null :: "'a nullable \<Rightarrow> bool" where
  "eq_null JS_undefined = True"
| "eq_null JS_null = True"
| "eq_null (JS_val v) = False"

section \<open>Data model\<close>

text \<open>
  The types below are imported by the component and declared elsewhere in the
  repository; each is modelled with the properties the component reads or writes.
\<close>

text \<open>
  Modelled from the spec: the declaration of \<^verbatim>\<open>EIP1559\<close> is missing. It is a priority
  fee and a max fee. The tiers of \<^verbatim>\<open>EIP1559GasPrices\<close> are such objects with an optional
  \<^verbatim>\<open>estimation_seconds\<close> property as well; an object without the property has \<open>None\<close>
  there.
\<close>

record EIP1559 =
  priority_fee :: jsnum
  max_fee :: jsnum
  estimation_seconds :: "jsnum option"

text \<open>
  Modelled from the spec: the declaration of \<^verbatim>\<open>GasPriceObject\<close> is missing. It is the
  fee basis: an object with an optional \<^verbatim>\<open>classic\<close> and an optional \<^verbatim>\<open>eip1559\<close>
  property (the fallback of the component sets both).
\<close>

record GasPriceObject =
  classic :: "jsnum option"
  eip1559 :: "EIP1559 option"

text \<open>
  Modelled from the spec: the declaration of \<^verbatim>\<open>EIP1559GasPrices\<close> is missing. It is
  the four named tiers, each optionally present.
\<close>

record EIP1559GasPrices =
  rapid :: "EIP1559 option"
  fast :: "EIP1559 option"
  standard :: "EIP1559 option"
  slow :: "EIP1559 option"

text \<open>
  Modelled from the spec: the declaration of \<^verbatim>\<open>ChainGasPrice\<close> is missing. The
  component reads \<^verbatim>\<open>info.classic?.fast\<close> and \<^verbatim>\<open>info.eip1559\<close> of it; the selectors
  carry a prefix where the name is taken by \<^typ>\<open>GasPriceObject\<close> and
  \<^typ>\<open>EIP1559GasPrices\<close>.
\<close>

record ClassicGasPrices =
  classic_fast :: "jsnum option"

record ChainGasPriceInfo =
  info_classic :: "ClassicGasPrices option"
  info_eip1559 :: "EIP1559GasPrices option"

record ChainGasPrice =
  info :: ChainGasPriceInfo

text \<open>The keys of \<^verbatim>\<open>ChainGasPrice['info']\<close>, the type of a fee estimation.\<close>

datatype InfoKey = Key_classic | Key_eip1559 | Key_optimistic

text \<open>
  Modelled from the spec: the declaration of \<^verbatim>\<open>IncomingTransaction\<close> is missing. It
  carries an optional sender (\<^verbatim>\<open>from\<close>, here \<open>tx_from\<close>), a gas amount and the optional
  fee fields; whatever else a transaction carries is the record's extension.
\<close>

record IncomingTransaction =
  tx_from :: "string option"
  gas :: jsval
  gasPrice :: jsval
  maxFeePerGas :: jsval
  maxPriorityFeePerGas :: jsval

text \<open>Modelled from the spec: a chain is known by its identifier, which \<^verbatim>\<open>toString\<close> returns.\<close>

datatype Chain = Chain string

fun toString :: "Chain \<Rightarrow> string" where
  "toString (Chain s) = s"

text \<open>
  Modelled from the spec: the declaration of the native asset is missing. It has an
  optional \<^verbatim>\<open>price\<close>, whose \<^verbatim>\<open>value\<close> is \<open>price_value\<close>: the decimal that
  \<^verbatim>\<open>BigNumber\<close> arithmetic reads from it. Whatever \<^verbatim>\<open>getDecimals\<close> reads is the record's
  extension.
\<close>

record Price =
  price_value :: rat

record Asset =
  price :: "Price option"

text \<open>
  Modelled from the spec: the declaration of the result of \<^verbatim>\<open>getNetworkFeeEstimation\<close>
  is missing. It has a \<^verbatim>\<open>type\<close> and a \<^verbatim>\<open>value\<close> in base units. \<^verbatim>\<open>BigNumber\<close>
  quantities are arbitrary-precision decimals, whose shifts and products are exact; they
  are embedded in \<^typ>\<open>rat\<close>.
\<close>

record FeeEstimation =
  estimation_type :: InfoKey
  estimation_value :: rat

text \<open>The object passed to \<^verbatim>\<open>getNetworkFeeEstimation\<close>.\<close>

record 'm NetworkFeeEstimationArgs =
  arg_transaction :: "'m IncomingTransaction_scheme"
  arg_address :: "string option"
  arg_gas :: jsnum
  arg_gasPrices :: "ChainGasPrice option"
  arg_gasPrice :: GasPriceObject

text \<open>
  What the module takes from outside: the functions it imports from the rest of the
  repository, and the two ECMAScript conversions that round to a double
  (\<^verbatim>\<open>StringToNumber\<close>, and \<^verbatim>\<open>Number\<close> of a \<^verbatim>\<open>bigint\<close>). Every result below holds for all
  of them.
\<close>

record ('m, 'a, 'd) externals =
  getGas :: "'m IncomingTransaction_scheme \<Rightarrow> jsval"
  StringToNumber :: "string \<Rightarrow> jsnum"
  BigIntToNumber :: "int \<Rightarrow> jsnum"
  formatSeconds :: "jsnum \<Rightarrow> string"
  getDecimals :: "'a Asset_scheme \<Rightarrow> Chain \<Rightarrow> 'd"
  baseToCommon :: "rat \<Rightarrow> 'd \<Rightarrow> rat"
  formatCurrencyValue :: "rat \<Rightarrow> string \<Rightarrow> string \<Rightarrow> string"

text \<open>What the hooks hand to one render of the component.\<close>

record 'a hooks =
  useNativeAsset_value :: "'a Asset_scheme option"
  useQuery_chainGasPrices :: "ChainGasPrice option"
  useQuery_feeEstimation :: "FeeEstimation option"
  useQuery_isLoading :: bool

datatype error = Error string | TypeError

datatype element = CircleSpinner | Null_element | UIText (title: "string option") (children: string)

text \<open>
  One render: the query function registered under \<^verbatim>\<open>'feeEstimation'\<close>, as a function of
  what \<^verbatim>\<open>gasChainPricesSubscription.get()\<close> resolves to, the two memoised values and
  the element shown beside the label.
\<close>

record 'm rendered =
  feeEstimationQuery :: "(string \<rightharpoonup> ChainGasPrice) \<Rightarrow> error + 'm NetworkFeeEstimationArgs"
  rendered_time :: "string option"
  rendered_fiatValue :: "rat nullable"
  rendered_element :: element

section \<open>The functions of NetworkFee.tsx\<close>

text \<open>\<^verbatim>\<open>Number(x)\<close>.\<close>

fun Number :: "('m, 'a, 'd) externals \<Rightarrow> jsval \<Rightarrow> jsnum" where
  "Number c JUndefined = NaN"
| "Number c JNull = Finite 0"
| "Number c (JNumber n) = n"
| "Number c (JString s) = StringToNumber c s"
| "Number c (JBigInt i) = BigIntToNumber c i"
| "Number c (JObject s) = StringToNumber c s"

definition getGasPriceFromTransaction ::
  "('m, 'a, 'd) externals \<Rightarrow> 'm IncomingTransaction_scheme \<Rightarrow> GasPriceObject option" where
  "getGasPriceFromTransaction c transaction =
     (let estimatedGas = getGas c transaction in
      if ToBoolean estimatedGas \<and> ToBoolean (gasPrice transaction) then
        Some \<lparr>classic = Some (Number c (gasPrice transaction)), eip1559 = None\<rparr>
      else if ToBoolean (maxPriorityFeePerGas transaction) \<and> ToBoolean (maxFeePerGas transaction) then
        Some \<lparr>classic = None,
              eip1559 = Some \<lparr>priority_fee = Number c (maxPriorityFeePerGas transaction),
                               max_fee = Number c (maxFeePerGas transaction),
                               estimation_seconds = None\<rparr>\<rparr>
      else None)"

fun getFeeTypeTitle :: "InfoKey option \<Rightarrow> string option" where
  "getFeeTypeTitle None = None"
| "getFeeTypeTitle (Some Key_classic) = None"
| "getFeeTypeTitle (Some Key_eip1559) = Some ''EIP-1559''"
| "getFeeTypeTitle (Some Key_optimistic) = Some ''Optimistic''"

text \<open>\<^verbatim>\<open>xs.filter(isTruthy)\<close>: the entries that are there and truthy, in their order.\<close>

definition filter_isTruthy :: "('a \<Rightarrow> bool) \<Rightarrow> 'a option list \<Rightarrow> 'a list" where
  "filter_isTruthy truthy xs = [x. Some x \<leftarrow> xs, truthy x]"

definition isMatch :: "EIP1559 \<Rightarrow> EIP1559 \<Rightarrow> bool" where
  "isMatch value1 value2 =
     (strictEquals (max_fee value1) (max_fee value2) \<and>
      strictEquals (priority_fee value1) (priority_fee value2))"

definition findMatchingEip1559 :: "EIP1559GasPrices \<Rightarrow> EIP1559 \<Rightarrow> EIP1559 option" where
  "findMatchingEip1559 eip1559GasPrices eip1559' =
     find (\<lambda>eip1559Info. isMatch eip1559Info eip1559')
       (filter_isTruthy (\<lambda>_. True)
          [rapid eip1559GasPrices, fast eip1559GasPrices,
           standard eip1559GasPrices, slow eip1559GasPrices])"

definition time ::
  "('m, 'a, 'd) externals \<Rightarrow> GasPriceObject option \<Rightarrow> ChainGasPrice option \<Rightarrow> string option" where
  "time c gasPriceFromTransaction chainGasPrices =
     (case (Option.bind gasPriceFromTransaction eip1559,
            Option.bind chainGasPrices (\<lambda>p. info_eip1559 (info p))) of
        (Some target, Some tiers) \<Rightarrow>
          (let eip1559Info = findMatchingEip1559 tiers target;
               seconds = Option.bind eip1559Info estimation_seconds
           in case seconds of
                None \<Rightarrow> None
              | Some s \<Rightarrow> if num_truthy s then Some (''~'' @ formatSeconds c s) else None)
      | _ \<Rightarrow> None)"

definition fiatValue ::
  "('m, 'a, 'd) externals \<Rightarrow> Chain \<Rightarrow> FeeEstimation option \<Rightarrow> 'a Asset_scheme option \<Rightarrow> rat nullable" where
  "fiatValue c chain feeEstimation nativeAsset =
     (case (nativeAsset, feeEstimation) of
        (Some asset, Some estimation) \<Rightarrow>
          (let commonQuantity =
                 baseToCommon c (estimation_value estimation) (getDecimals c asset chain)
           in case price asset of
                None \<Rightarrow> JS_null
              | Some p \<Rightarrow> JS_val (commonQuantity * price_value p))
      | _ \<Rightarrow> JS_undefined)"

text \<open>
  The body of the \<^verbatim>\<open>'feeEstimation'\<close> query up to its call of
  \<^verbatim>\<open>getNetworkFeeEstimation\<close>: the argument object, or the \<^verbatim>\<open>TypeError\<close> of reading
  \<^verbatim>\<open>info\<close> from a chain entry that is not there.
\<close>

definition feeEstimationRequest ::
  "('m, 'a, 'd) externals \<Rightarrow> 'm IncomingTransaction_scheme \<Rightarrow> Chain \<Rightarrow> jsval \<Rightarrow>
   GasPriceObject option \<Rightarrow> (string \<rightharpoonup> ChainGasPrice) \<Rightarrow> error + 'm NetworkFeeEstimationArgs" where
  "feeEstimationRequest c transaction chain gas' gasPriceFromTransaction gasPrices =
     (let chainGasPrices = gasPrices (toString chain);
          address = (case tx_from transaction of
                       None \<Rightarrow> None
                     | Some a \<Rightarrow> if a = [] then None else Some a)
      in case gasPriceFromTransaction of
           Some g \<Rightarrow>
             Inr \<lparr>arg_transaction = transaction, arg_address = address,
                  arg_gas = Number c gas', arg_gasPrices = chainGasPrices, arg_gasPrice = g\<rparr>
         | None \<Rightarrow>
             (case chainGasPrices of
                None \<Rightarrow> Inl TypeError
              | Some p \<Rightarrow>
                  Inr \<lparr>arg_transaction = transaction, arg_address = address,
                       arg_gas = Number c gas', arg_gasPrices = chainGasPrices,
                       arg_gasPrice =
                         \<lparr>classic = Option.bind (info_classic (info p)) classic_fast,
                          eip1559 = Option.bind (info_eip1559 (info p)) fast\<rparr>\<rparr>))"

text \<open>\<^verbatim>\<open>xs.join(' \<cdot> ')\<close>, the separator being a middle dot between two spaces.\<close>

fun join :: "string \<Rightarrow> string list \<Rightarrow> string" where
  "join sep [] = []"
| "join sep [x] = x"
| "join sep (x # y # ys) = x @ sep @ join sep (y # ys)"

definition NetworkFee ::
  "('m, 'a, 'd) externals \<Rightarrow> 'm IncomingTransaction_scheme \<Rightarrow> Chain \<Rightarrow> 'a hooks \<Rightarrow>
   error + 'm rendered" where
  "NetworkFee c transaction chain h =
     (let gas' = getGas c transaction in
      if \<not> ToBoolean gas' then
        Inl (Error ''gas field is expected to be found on Transaction object'')
      else
        let nativeAsset = useNativeAsset_value h;
            chainGasPrices = useQuery_chainGasPrices h;
            gasPriceFromTransaction = getGasPriceFromTransaction c transaction;
            feeEstimation = useQuery_feeEstimation h;
            isLoading = useQuery_isLoading h;
            time' = time c gasPriceFromTransaction chainGasPrices;
            fiatValue' = fiatValue c chain feeEstimation nativeAsset
        in Inr \<lparr>feeEstimationQuery =
                   feeEstimationRequest c transaction chain gas' gasPriceFromTransaction,
                 rendered_time = time',
                 rendered_fiatValue = fiatValue',
                 rendered_element =
                   (if isLoading then CircleSpinner
                    else if eq_null fiatValue' then Null_element
                    else case fiatValue' of
                           JS_val v \<Rightarrow>
                             UIText (getFeeTypeTitle (map_option estimation_type feeEstimation))
                               (join [CHR '' '', CHR 0xB7, CHR '' '']
                                  (filter_isTruthy (\<lambda>s. s \<noteq> [])
                                     [time', Some (formatCurrencyValue c v ''en'' ''usd'')]))
                         | _ \<Rightarrow> Null_element)\<rparr>)"

section \<open>Notions of the specification and sample inputs\<close>

text \<open>The specification's "positive value" of a number of seconds.\<close>

fun positive :: "jsnum \<Rightarrow> bool" where
  "positive (Finite q) = (0 < q)"
| "positive Infinity = True"
| "positive NaN = False"
| "positive NegInfinity = False"

text \<open>
  The specification's candidate list of MatchEip1559Estimation: rapid, fast, standard,
  slow in this order, the absent ones left out.
\<close>

definition candidates :: "EIP1559GasPrices \<Rightarrow> EIP1559 list" where
  "candidates p =
     (case rapid p of None \<Rightarrow> [] | Some x \<Rightarrow> [x]) @
     (case fast p of None \<Rightarrow> [] | Some x \<Rightarrow> [x]) @
     (case standard p of None \<Rightarrow> [] | Some x \<Rightarrow> [x]) @
     (case slow p of None \<Rightarrow> [] | Some x \<Rightarrow> [x])"

text \<open>
  Sample outside functions, for running the component on concrete inputs. They agree
  with the real ones on what the examples below use: \<^verbatim>\<open>Number\<close> of a string of decimal
  digits (an integer below \<open>2^53\<close>) is that integer, and of the empty string is 0.
\<close>

definition digit_of :: "char \<Rightarrow> nat option" where
  "digit_of ch =
     (let n = (of_char ch :: nat) in if 48 \<le> n \<and> n \<le> 57 then Some (n - 48) else None)"

fun decimal :: "string \<Rightarrow> nat \<Rightarrow> nat option" where
  "decimal [] acc = Some acc"
| "decimal (ch # cs) acc =
     (case digit_of ch of None \<Rightarrow> None | Some d \<Rightarrow> decimal cs (10 * acc + d))"

definition sample_StringToNumber :: "string \<Rightarrow> jsnum" where
  "sample_StringToNumber s =
     (case decimal s 0 of None \<Rightarrow> NaN | Some n \<Rightarrow> Finite (of_nat n))"

text \<open>
  Modelled from the spec: \<^verbatim>\<open>baseToCommon\<close> converts base units to the common quantity
  by the asset's decimal exponent (\<open>10^18\<close> base units at 18 decimals are 1), and the
  native asset's decimals are taken to be 18, those of the spec's example.
\<close>

definition sample_externals :: "(unit, unit, nat) externals" where
  "sample_externals =
     \<lparr>getGas = gas,
      StringToNumber = sample_StringToNumber,
      BigIntToNumber = (\<lambda>i. Finite (of_int i)),
      formatSeconds = (\<lambda>n. ''N sec''),
      getDecimals = (\<lambda>asset chain. 18),
      baseToCommon = (\<lambda>v d. v / 10 ^ d),
      formatCurrencyValue = (\<lambda>v locale currency. ''$N'')\<rparr>"

text \<open>The tiers of the specification's tie example, and a chain publishing them.\<close>

definition tie_tiers :: EIP1559GasPrices where
  "tie_tiers =
     \<lparr>rapid = Some \<lparr>priority_fee = Finite 1, max_fee = Finite 10,
                     estimation_seconds = Some (Finite 5)\<rparr>,
      fast = Some \<lparr>priority_fee = Finite 1, max_fee = Finite 10,
                    estimation_seconds = Some (Finite 10)\<rparr>,
      standard = None,
      slow = None\<rparr>"

definition sample_chain_prices :: "jsnum option \<Rightarrow> EIP1559GasPrices \<Rightarrow> ChainGasPrice" where
  "sample_chain_prices classic_fast_price tiers =
     \<lparr>info = \<lparr>info_classic = Some \<lparr>classic_fast = classic_fast_price\<rparr>,
               info_eip1559 = Some tiers\<rparr>\<rparr>"

text \<open>Sample transactions: only the listed fee fields are set.\<close>

definition sample_tx :: "jsval \<Rightarrow> jsval \<Rightarrow> jsval \<Rightarrow> jsval \<Rightarrow> IncomingTransaction" where
  "sample_tx g gp mf mp =
     \<lparr>tx_from = None, gas = g, gasPrice = gp, maxFeePerGas = mf, maxPriorityFeePerGas = mp\<rparr>"

section \<open>Auxiliary facts\<close>

text \<open>A match is equality of both fees, neither fee of the target being \<^verbatim>\<open>NaN\<close>.\<close>

lemma isMatch_iff:
  "isMatch t e \<longleftrightarrow>
     max_fee t = max_fee e \<and> priority_fee t = priority_fee e \<and>
     max_fee e \<noteq> NaN \<and> priority_fee e \<noteq> NaN"
  by (auto simp: isMatch_def strictEquals_def)

lemma filter_isTruthy_candidates:
  "filter_isTruthy (\<lambda>_. True) [rapid p, fast p, standard p, slow p] = candidates p"
  by (simp add: filter_isTruthy_def candidates_def split: option.splits)

lemma findMatchingEip1559_find:
  "findMatchingEip1559 p e = find (\<lambda>t. isMatch t e) (candidates p)"
  by (simp add: findMatchingEip1559_def filter_isTruthy_candidates)

text \<open>What a render that does not throw is made of.\<close>

lemma NetworkFee_Inr:
  assumes "NetworkFee c transaction chain h = Inr r"
  shows "ToBoolean (getGas c transaction)"
    and "feeEstimationQuery r =
           feeEstimationRequest c transaction chain (getGas c transaction)
             (getGasPriceFromTransaction c transaction)"
    and "rendered_time r =
           time c (getGasPriceFromTransaction c transaction) (useQuery_chainGasPrices h)"
    and "rendered_fiatValue r =
           fiatValue c chain (useQuery_feeEstimation h) (useNativeAsset_value h)"
  using assms by (auto simp: NetworkFee_def Let_def split: if_splits)

lemma NetworkFee_renders:
  "ToBoolean (getGas c transaction) \<Longrightarrow> \<exists>r. NetworkFee c transaction chain h = Inr r"
  by (simp add: NetworkFee_def Let_def)

lemma time_Some_iff:
  "time c g chainGasPrices = Some s \<longleftrightarrow>
     (\<exists>b target p tiers tier seconds.
        g = Some b \<and> eip1559 b = Some target \<and>
        chainGasPrices = Some p \<and> info_eip1559 (info p) = Some tiers \<and>
        findMatchingEip1559 tiers target = Some tier \<and>
        estimation_seconds tier = Some seconds \<and> num_truthy seconds \<and>
        s = ''~'' @ formatSeconds c seconds)"
  by (cases g; cases chainGasPrices)
     (auto simp: time_def Let_def Option.bind_eq_Some_conv
           split: option.splits Option.bind_splits if_splits)

text \<open>
  Truthiness looks at the value, not at the number it denotes: the string \<^verbatim>\<open>"0"\<close> and an
  object are present, the number \<^verbatim>\<open>0\<close> and the empty string are not.
\<close>

lemma ToBoolean_examples:
  "ToBoolean (JString ''0'')" "ToBoolean (JObject ''0'')"
  "\<not> ToBoolean (JNumber (Finite 0))" "\<not> ToBoolean (JString [])" "\<not> ToBoolean (JNumber NaN)"
  by simp_all

section \<open>Fee basis of a transaction\<close>

text \<open>
  C1. When the estimated gas and the legacy \<^verbatim>\<open>gasPrice\<close> are both truthy, the result is
  the classic basis holding \<^verbatim>\<open>Number(gasPrice)\<close> and no EIP-1559 part, whatever
  \<^verbatim>\<open>maxFeePerGas\<close> and \<^verbatim>\<open>maxPriorityFeePerGas\<close> hold.
\<close>

theorem classic_takes_precedence:
  assumes "ToBoolean (getGas c transaction)" and "ToBoolean (gasPrice transaction)"
  shows "getGasPriceFromTransaction c transaction =
           Some \<lparr>classic = Some (Number c (gasPrice transaction)), eip1559 = None\<rparr>"
  using assms by (simp add: getGasPriceFromTransaction_def)

text \<open>A transaction with gas, a gas price and both EIP-1559 fees is classic.\<close>

theorem classic_takes_precedence_witness:
  "getGasPriceFromTransaction sample_externals
     (sample_tx (JString ''21000'') (JString ''50000000000'')
        (JNumber (Finite 10)) (JNumber (Finite 1))) =
   Some \<lparr>classic = Some (Finite 50000000000), eip1559 = None\<rparr>"
  using classic_takes_precedence
    [of sample_externals
      "sample_tx (JString ''21000'') (JString ''50000000000'')
         (JNumber (Finite 10)) (JNumber (Finite 1))"]
  by (simp add: sample_externals_def sample_tx_def sample_StringToNumber_def digit_of_def)

text \<open>
  C3. When the classic condition fails and \<^verbatim>\<open>maxPriorityFeePerGas\<close> and
  \<^verbatim>\<open>maxFeePerGas\<close> are both truthy, the result is the EIP-1559 basis with
  \<^verbatim>\<open>priority_fee = Number(maxPriorityFeePerGas)\<close> and \<^verbatim>\<open>max_fee = Number(maxFeePerGas)\<close>,
  and no classic part.
\<close>

theorem eip1559_when_not_classic:
  assumes "\<not> (ToBoolean (getGas c transaction) \<and> ToBoolean (gasPrice transaction))"
    and "ToBoolean (maxPriorityFeePerGas transaction)"
    and "ToBoolean (maxFeePerGas transaction)"
  shows "getGasPriceFromTransaction c transaction =
           Some \<lparr>classic = None,
                 eip1559 = Some \<lparr>priority_fee = Number c (maxPriorityFeePerGas transaction),
                                  max_fee = Number c (maxFeePerGas transaction),
                                  estimation_seconds = None\<rparr>\<rparr>"
  using assms by (auto simp: getGasPriceFromTransaction_def)

theorem eip1559_when_not_classic_witness:
  "getGasPriceFromTransaction sample_externals
     (sample_tx (JString ''21000'') JUndefined (JString ''30'') (JNumber (Finite 2))) =
   Some \<lparr>classic = None,
         eip1559 = Some \<lparr>priority_fee = Finite 2, max_fee = Finite 30,
                          estimation_seconds = None\<rparr>\<rparr>"
  using eip1559_when_not_classic
    [of sample_externals
      "sample_tx (JString ''21000'') JUndefined (JString ''30'') (JNumber (Finite 2))"]
  by (simp add: sample_externals_def sample_tx_def sample_StringToNumber_def digit_of_def)

text \<open>
  C4. When neither the classic nor the EIP-1559 condition holds, the result is \<^verbatim>\<open>null\<close>:
  no error and no default basis.
\<close>

theorem no_basis_otherwise:
  assumes "\<not> (ToBoolean (getGas c transaction) \<and> ToBoolean (gasPrice transaction))"
    and "\<not> (ToBoolean (maxPriorityFeePerGas transaction) \<and> ToBoolean (maxFeePerGas transaction))"
  shows "getGasPriceFromTransaction c transaction = None"
  using assms by (auto simp: getGasPriceFromTransaction_def)

theorem no_basis_otherwise_witness:
  "getGasPriceFromTransaction sample_externals
     (sample_tx (JString ''21000'') JUndefined (JString ''30'') JUndefined) = None"
  using no_basis_otherwise
    [of sample_externals "sample_tx (JString ''21000'') JUndefined (JString ''30'') JUndefined"]
  by (simp add: sample_externals_def sample_tx_def)

text \<open>
  C10. A fee field holding the number 0 counts as absent. With the estimated gas present
  and \<^verbatim>\<open>gasPrice\<close> the number 0, the classic branch is skipped: the result is what the
  remaining branches give and has no classic part. With \<^verbatim>\<open>maxFeePerGas\<close> present,
  \<^verbatim>\<open>maxPriorityFeePerGas\<close> the number 0 and the classic condition not met, the result
  is \<^verbatim>\<open>null\<close>.
\<close>

theorem zero_fee_is_absent:
  "(ToBoolean (getGas c transaction) \<and> gasPrice transaction = JNumber (Finite 0) \<longrightarrow>
      getGasPriceFromTransaction c transaction =
        (if ToBoolean (maxPriorityFeePerGas transaction) \<and> ToBoolean (maxFeePerGas transaction)
         then Some \<lparr>classic = None,
                    eip1559 = Some \<lparr>priority_fee = Number c (maxPriorityFeePerGas transaction),
                                     max_fee = Number c (maxFeePerGas transaction),
                                     estimation_seconds = None\<rparr>\<rparr>
         else None) \<and>
      Option.bind (getGasPriceFromTransaction c transaction) classic = None) \<and>
   (ToBoolean (maxFeePerGas transaction) \<and>
    maxPriorityFeePerGas transaction = JNumber (Finite 0) \<and>
    \<not> (ToBoolean (getGas c transaction) \<and> ToBoolean (gasPrice transaction)) \<longrightarrow>
      getGasPriceFromTransaction c transaction = None)"
  by (simp add: getGasPriceFromTransaction_def)

theorem zero_fee_is_absent_witness:
  "getGasPriceFromTransaction sample_externals
     (sample_tx (JString ''21000'') (JNumber (Finite 0))
        (JNumber (Finite 10)) (JNumber (Finite 1))) =
     Some \<lparr>classic = None,
           eip1559 = Some \<lparr>priority_fee = Finite 1, max_fee = Finite 10,
                            estimation_seconds = None\<rparr>\<rparr> \<and>
   getGasPriceFromTransaction sample_externals
     (sample_tx (JString ''21000'') JUndefined (JNumber (Finite 10)) (JNumber (Finite 0))) = None"
  using zero_fee_is_absent
    [of sample_externals
      "sample_tx (JString ''21000'') (JNumber (Finite 0))
         (JNumber (Finite 10)) (JNumber (Finite 1))"]
    zero_fee_is_absent
    [of sample_externals
      "sample_tx (JString ''21000'') JUndefined (JNumber (Finite 10)) (JNumber (Finite 0))"]
  by (simp add: sample_externals_def sample_tx_def)

section \<open>Label of a fee type\<close>

text \<open>
  C6. \<^verbatim>\<open>getFeeTypeTitle\<close> gives \<^verbatim>\<open>undefined\<close> for \<^verbatim>\<open>classic\<close>, \<^verbatim>\<open>"EIP-1559"\<close> for
  \<^verbatim>\<open>eip1559\<close>, \<^verbatim>\<open>"Optimistic"\<close> for \<^verbatim>\<open>optimistic\<close> and \<^verbatim>\<open>undefined\<close> for
  \<^verbatim>\<open>undefined\<close>, and these four are all the inputs there are.
\<close>

theorem getFeeTypeTitle_total:
  "getFeeTypeTitle (Some Key_classic) = None \<and>
   getFeeTypeTitle (Some Key_eip1559) = Some ''EIP-1559'' \<and>
   getFeeTypeTitle (Some Key_optimistic) = Some ''Optimistic'' \<and>
   getFeeTypeTitle None = None \<and>
   (\<forall>k. k = Some Key_classic \<or> k = Some Key_eip1559 \<or> k = Some Key_optimistic \<or> k = None)"
proof -
  have "k = Some Key_classic \<or> k = Some Key_eip1559 \<or> k = Some Key_optimistic \<or> k = None"
    for k :: "InfoKey option"
    by (cases k) (auto intro: InfoKey.exhaust)
  then show ?thesis by simp
qed

section \<open>Matching the EIP-1559 tiers\<close>

text \<open>
  C2. \<^verbatim>\<open>findMatchingEip1559\<close> goes through the present tiers in the order rapid, fast,
  standard, slow and returns the first one whose \<^verbatim>\<open>max_fee\<close> and \<^verbatim>\<open>priority_fee\<close> are
  both \<^verbatim>\<open>===\<close> to the target's: it returns a tier exactly when that tier stands at some
  position of the candidate list, matches, and no earlier candidate matches; it returns
  nothing exactly when no candidate matches; and a matching rapid tier is returned
  whatever the fast tier holds, so a tie between rapid and fast goes to rapid.
\<close>

theorem first_match_wins:
  "(isMatch t e \<longleftrightarrow>
      strictEquals (max_fee t) (max_fee e) \<and> strictEquals (priority_fee t) (priority_fee e)) \<and>
   (findMatchingEip1559 p e = None \<longleftrightarrow> (\<forall>t \<in> set (candidates p). \<not> isMatch t e)) \<and>
   (findMatchingEip1559 p e = Some t \<longleftrightarrow>
      (\<exists>k < length (candidates p). candidates p ! k = t \<and> isMatch t e \<and>
         (\<forall>j < k. \<not> isMatch (candidates p ! j) e))) \<and>
   (rapid p = Some r \<and> isMatch r e \<longrightarrow> findMatchingEip1559 p e = Some r)"
proof (intro conjI)
  show "isMatch t e \<longleftrightarrow>
      strictEquals (max_fee t) (max_fee e) \<and> strictEquals (priority_fee t) (priority_fee e)"
    by (simp add: isMatch_def)
  show "findMatchingEip1559 p e = None \<longleftrightarrow> (\<forall>t \<in> set (candidates p). \<not> isMatch t e)"
    unfolding findMatchingEip1559_find find_None_iff by blast
  show "findMatchingEip1559 p e = Some t \<longleftrightarrow>
      (\<exists>k < length (candidates p). candidates p ! k = t \<and> isMatch t e \<and>
         (\<forall>j < k. \<not> isMatch (candidates p ! j) e))"
    unfolding findMatchingEip1559_find find_Some_iff by blast
  show "rapid p = Some r \<and> isMatch r e \<longrightarrow> findMatchingEip1559 p e = Some r"
    by (simp add: findMatchingEip1559_find candidates_def)
qed

text \<open>
  The specification's examples: rapid and fast both hold (10, 1); the target (10, 1) gets
  the rapid tier, whose estimate is 5, and the target (99, 99) gets nothing.
\<close>

theorem first_match_wins_witness:
  "findMatchingEip1559 tie_tiers
     \<lparr>priority_fee = Finite 1, max_fee = Finite 10, estimation_seconds = None\<rparr> =
     rapid tie_tiers \<and>
   Option.bind (rapid tie_tiers) estimation_seconds = Some (Finite 5) \<and>
   findMatchingEip1559 tie_tiers
     \<lparr>priority_fee = Finite 99, max_fee = Finite 99, estimation_seconds = None\<rparr> = None"
  using first_match_wins
    [of "the (rapid tie_tiers)"
        "\<lparr>priority_fee = Finite 1, max_fee = Finite 10, estimation_seconds = None\<rparr>"
        tie_tiers "the (rapid tie_tiers)"]
    first_match_wins
    [of _ "\<lparr>priority_fee = Finite 99, max_fee = Finite 99, estimation_seconds = None\<rparr>"
        tie_tiers]
  by (simp add: tie_tiers_def candidates_def isMatch_def strictEquals_def)

section \<open>The component\<close>

text \<open>
  C5. When \<^verbatim>\<open>getGas\<close> gives a falsy value the component throws its error, whatever the
  chain and the hooks hold: no query is registered, nothing is computed or shown, and no
  gas value is put in its place.
\<close>

theorem missing_gas_throws:
  assumes "\<not> ToBoolean (getGas c transaction)"
  shows "NetworkFee c transaction chain h =
           Inl (Error ''gas field is expected to be found on Transaction object'')"
  using assms by (simp add: NetworkFee_def)

theorem missing_gas_throws_witness:
  "NetworkFee sample_externals
     (sample_tx JUndefined (JString ''50000000000'') JUndefined JUndefined) (Chain ''ethereum'')
     \<lparr>useNativeAsset_value = Some \<lparr>price = Some \<lparr>price_value = 2000\<rparr>\<rparr>,
      useQuery_chainGasPrices = Some (sample_chain_prices (Some (Finite 40000000000)) tie_tiers),
      useQuery_feeEstimation = None,
      useQuery_isLoading = True\<rparr> =
   Inl (Error ''gas field is expected to be found on Transaction object'')"
  using missing_gas_throws
    [of sample_externals "sample_tx JUndefined (JString ''50000000000'') JUndefined JUndefined"]
  by (simp add: sample_externals_def sample_tx_def)

text \<open>
  C8. In a render that does not throw, the \<^verbatim>\<open>gasPrice\<close> passed to
  \<^verbatim>\<open>getNetworkFeeEstimation\<close> is the basis of the transaction when there is one. When
  there is none and the subscription has an entry for the chain, it is the fallback:
  \<^verbatim>\<open>classic\<close> is \<^verbatim>\<open>info.classic.fast\<close> and \<^verbatim>\<open>eip1559\<close> is \<^verbatim>\<open>info.eip1559.fast\<close> of that
  entry, each where it exists.
\<close>

theorem estimation_basis:
  assumes "NetworkFee c transaction chain h = Inr r"
  shows "(getGasPriceFromTransaction c transaction = Some b \<longrightarrow>
            (\<exists>a. feeEstimationQuery r gasPrices = Inr a \<and> arg_gasPrice a = b)) \<and>
         (getGasPriceFromTransaction c transaction = None \<and>
          gasPrices (toString chain) = Some tiers \<longrightarrow>
            (\<exists>a. feeEstimationQuery r gasPrices = Inr a \<and>
               classic (arg_gasPrice a) =
                 (case info_classic (info tiers) of None \<Rightarrow> None | Some k \<Rightarrow> classic_fast k) \<and>
               eip1559 (arg_gasPrice a) =
                 (case info_eip1559 (info tiers) of None \<Rightarrow> None | Some k \<Rightarrow> fast k)))"
  unfolding NetworkFee_Inr(2)[OF assms]
  by (auto simp: feeEstimationRequest_def Let_def split: option.splits)

text \<open>
  The specification's scenario: with gas \<^verbatim>\<open>"21000"\<close> and gasPrice \<^verbatim>\<open>"50000000000"\<close> the
  basis passed is classic 50e9, not the chain's fast classic price 40e9; the same
  transaction without a gasPrice gets the fallback.
\<close>

theorem estimation_basis_witness:
  "(\<exists>r a. NetworkFee sample_externals
            (sample_tx (JString ''21000'') (JString ''50000000000'') JUndefined JUndefined)
            (Chain ''ethereum'')
            \<lparr>useNativeAsset_value = None, useQuery_chainGasPrices = None,
             useQuery_feeEstimation = None, useQuery_isLoading = True\<rparr> = Inr r \<and>
          feeEstimationQuery r
            [''ethereum'' \<mapsto> sample_chain_prices (Some (Finite 40000000000)) tie_tiers] = Inr a \<and>
          arg_gasPrice a = \<lparr>classic = Some (Finite 50000000000), eip1559 = None\<rparr>) \<and>
   (\<exists>r a. NetworkFee sample_externals
            (sample_tx (JString ''21000'') JUndefined JUndefined JUndefined)
            (Chain ''ethereum'')
            \<lparr>useNativeAsset_value = None, useQuery_chainGasPrices = None,
             useQuery_feeEstimation = None, useQuery_isLoading = True\<rparr> = Inr r \<and>
          feeEstimationQuery r
            [''ethereum'' \<mapsto> sample_chain_prices (Some (Finite 40000000000)) tie_tiers] = Inr a \<and>
          classic (arg_gasPrice a) = Some (Finite 40000000000) \<and>
          eip1559 (arg_gasPrice a) = fast tie_tiers)"
proof -
  let ?h = "\<lparr>useNativeAsset_value = None, useQuery_chainGasPrices = None,
             useQuery_feeEstimation = None, useQuery_isLoading = True\<rparr> :: unit hooks"
  let ?gp = "[''ethereum'' \<mapsto> sample_chain_prices (Some (Finite 40000000000)) tie_tiers]"
  let ?t1 = "sample_tx (JString ''21000'') (JString ''50000000000'') JUndefined JUndefined"
  let ?t2 = "sample_tx (JString ''21000'') JUndefined JUndefined JUndefined"
  obtain r1 where r1: "NetworkFee sample_externals ?t1 (Chain ''ethereum'') ?h = Inr r1"
    by (simp add: NetworkFee_def Let_def sample_externals_def sample_tx_def)
  obtain r2 where r2: "NetworkFee sample_externals ?t2 (Chain ''ethereum'') ?h = Inr r2"
    by (simp add: NetworkFee_def Let_def sample_externals_def sample_tx_def)
  have b1: "getGasPriceFromTransaction sample_externals ?t1 =
              Some \<lparr>classic = Some (Finite 50000000000), eip1559 = None\<rparr>"
    by (simp add: getGasPriceFromTransaction_def sample_externals_def sample_tx_def
          sample_StringToNumber_def digit_of_def)
  have b2: "getGasPriceFromTransaction sample_externals ?t2 = None"
    by (simp add: getGasPriceFromTransaction_def sample_externals_def sample_tx_def)
  have g: "?gp (toString (Chain ''ethereum'')) =
             Some (sample_chain_prices (Some (Finite 40000000000)) tie_tiers)"
    by simp
  from estimation_basis
      [OF r1, of "\<lparr>classic = Some (Finite 50000000000), eip1559 = None\<rparr>" ?gp] b1 r1
  have first: "\<exists>r a.
      NetworkFee sample_externals ?t1 (Chain ''ethereum'') ?h = Inr r \<and>
      feeEstimationQuery r ?gp = Inr a \<and>
      arg_gasPrice a = \<lparr>classic = Some (Finite 50000000000), eip1559 = None\<rparr>"
    by blast
  from estimation_basis
      [OF r2, of _ ?gp "sample_chain_prices (Some (Finite 40000000000)) tie_tiers"] b2 g r2
  have second: "\<exists>r a.
      NetworkFee sample_externals ?t2 (Chain ''ethereum'') ?h = Inr r \<and>
      feeEstimationQuery r ?gp = Inr a \<and>
      classic (arg_gasPrice a) = Some (Finite 40000000000) \<and>
      eip1559 (arg_gasPrice a) = fast tie_tiers"
    by (auto simp: sample_chain_prices_def)
  from first second show ?thesis by blast
qed

section \<open>Confirmation time\<close>

text \<open>
  C9, amended. In a render that does not throw, a time string is produced exactly when
  the basis extracted from the transaction itself has an EIP-1559 part, the chain's
  EIP-1559 tiers are there, some tier matches that part, and the tier's
  \<^verbatim>\<open>estimation_seconds\<close> is truthy (a number other than 0 and \<^verbatim>\<open>NaN\<close>); the string is
  then \<^verbatim>\<open>~\<close> followed by the formatted seconds. The fallback basis plays no part: without
  a basis of the transaction's own there is no time.
\<close>

theorem time_only_for_matched_tier:
  assumes "NetworkFee c transaction chain h = Inr r"
  shows "rendered_time r = Some s \<longleftrightarrow>
     (\<exists>b target p tiers tier seconds.
        getGasPriceFromTransaction c transaction = Some b \<and> eip1559 b = Some target \<and>
        useQuery_chainGasPrices h = Some p \<and> info_eip1559 (info p) = Some tiers \<and>
        findMatchingEip1559 tiers target = Some tier \<and>
        estimation_seconds tier = Some seconds \<and> num_truthy seconds \<and>
        s = ''~'' @ formatSeconds c seconds)"
  unfolding NetworkFee_Inr(3)[OF assms] by (rule time_Some_iff)

text \<open>
  On the tiers of the tie example, an EIP-1559 transaction with fees (10, 1) gets the
  time of the rapid tier, and a transaction without fee fields gets none although the
  chain has a fast tier.
\<close>

theorem time_only_for_matched_tier_witness:
  "(\<exists>r. NetworkFee sample_externals
           (sample_tx (JString ''21000'') JUndefined (JNumber (Finite 10)) (JNumber (Finite 1)))
           (Chain ''ethereum'')
           \<lparr>useNativeAsset_value = None,
            useQuery_chainGasPrices = Some (sample_chain_prices None tie_tiers),
            useQuery_feeEstimation = None, useQuery_isLoading = True\<rparr> = Inr r \<and>
         rendered_time r = Some (''~'' @ formatSeconds sample_externals (Finite 5))) \<and>
   (\<exists>r. NetworkFee sample_externals
           (sample_tx (JString ''21000'') JUndefined JUndefined JUndefined)
           (Chain ''ethereum'')
           \<lparr>useNativeAsset_value = None,
            useQuery_chainGasPrices = Some (sample_chain_prices None tie_tiers),
            useQuery_feeEstimation = None, useQuery_isLoading = True\<rparr> = Inr r \<and>
         rendered_time r = None)"
proof -
  let ?h = "\<lparr>useNativeAsset_value = None,
             useQuery_chainGasPrices = Some (sample_chain_prices None tie_tiers),
             useQuery_feeEstimation = None, useQuery_isLoading = True\<rparr> :: unit hooks"
  let ?t1 = "sample_tx (JString ''21000'') JUndefined (JNumber (Finite 10)) (JNumber (Finite 1))"
  let ?t2 = "sample_tx (JString ''21000'') JUndefined JUndefined JUndefined"
  obtain r1 where r1: "NetworkFee sample_externals ?t1 (Chain ''ethereum'') ?h = Inr r1"
    by (simp add: NetworkFee_def Let_def sample_externals_def sample_tx_def)
  obtain r2 where r2: "NetworkFee sample_externals ?t2 (Chain ''ethereum'') ?h = Inr r2"
    by (simp add: NetworkFee_def Let_def sample_externals_def sample_tx_def)
  have "rendered_time r1 = Some (''~'' @ formatSeconds sample_externals (Finite 5))"
    unfolding time_only_for_matched_tier [OF r1]
    by (simp add: getGasPriceFromTransaction_def sample_externals_def sample_tx_def
          sample_chain_prices_def tie_tiers_def findMatchingEip1559_def filter_isTruthy_def
          isMatch_def strictEquals_def)
  moreover have "rendered_time r2 \<noteq> Some s" for s
    unfolding time_only_for_matched_tier [OF r2]
    by (simp add: getGasPriceFromTransaction_def sample_externals_def sample_tx_def)
  then have "rendered_time r2 = None"
    by (cases "rendered_time r2") auto
  ultimately show ?thesis using r1 r2 by blast
qed

text \<open>
  C9 as stated asks for a positive \<^verbatim>\<open>estimation_seconds\<close>. The code tests truthiness:
  a matched tier whose \<^verbatim>\<open>estimation_seconds\<close> is \<open>-5\<close> produces a time string as well.
\<close>

theorem time_counterexample:
  "time sample_externals
     (getGasPriceFromTransaction sample_externals
        (sample_tx (JString ''21000'') JUndefined (JNumber (Finite 10)) (JNumber (Finite 1))))
     (Some (sample_chain_prices None
        \<lparr>rapid = Some \<lparr>priority_fee = Finite 1, max_fee = Finite 10,
                        estimation_seconds = Some (Finite (- 5))\<rparr>,
         fast = None, standard = None, slow = None\<rparr>)) =
     Some (''~'' @ formatSeconds sample_externals (Finite (- 5))) \<and>
   \<not> positive (Finite (- 5))"
  by (simp add: time_def getGasPriceFromTransaction_def sample_externals_def sample_tx_def
        sample_chain_prices_def findMatchingEip1559_def filter_isTruthy_def isMatch_def
        strictEquals_def)

section \<open>Fiat value\<close>

text \<open>
  C7, amended. With a fee estimation and a native asset at hand: when the asset has a
  price, the fiat value is \<^verbatim>\<open>baseToCommon\<close> of the estimation's value at the asset's
  decimals, times the price's value; when the asset has no price, the fiat value is
  \<^verbatim>\<open>null\<close>, which is not the number 0.
\<close>

theorem fiatValue_priced:
  "(price asset = Some p \<longrightarrow>
      fiatValue c chain (Some estimation) (Some asset) =
        JS_val (baseToCommon c (estimation_value estimation) (getDecimals c asset chain) *
                price_value p)) \<and>
   (price asset = None \<longrightarrow>
      fiatValue c chain (Some estimation) (Some asset) = JS_null \<and>
      fiatValue c chain (Some estimation) (Some asset) \<noteq> JS_val 0)"
  by (simp add: fiatValue_def Let_def)

text \<open>
  The specification's example: \<open>10^18\<close> base units at 18 decimals and a price of 2000 are
  2000; without a price the value is \<^verbatim>\<open>null\<close>.
\<close>

theorem fiatValue_priced_witness:
  "fiatValue sample_externals (Chain ''ethereum'')
      (Some \<lparr>estimation_type = Key_classic, estimation_value = 1000000000000000000\<rparr>)
      (Some \<lparr>price = Some \<lparr>price_value = 2000\<rparr>\<rparr>) = JS_val 2000 \<and>
   fiatValue sample_externals (Chain ''ethereum'')
      (Some \<lparr>estimation_type = Key_classic, estimation_value = 1000000000000000000\<rparr>)
      (Some \<lparr>price = None\<rparr>) = JS_null"
  using fiatValue_priced
    [of "\<lparr>price = Some \<lparr>price_value = 2000\<rparr>\<rparr>" "\<lparr>price_value = 2000\<rparr>" sample_externals
        "Chain ''ethereum''"
        "\<lparr>estimation_type = Key_classic, estimation_value = 1000000000000000000\<rparr>"]
    fiatValue_priced
    [of "\<lparr>price = None\<rparr>" "\<lparr>price_value = 2000\<rparr>" sample_externals "Chain ''ethereum''"
        "\<lparr>estimation_type = Key_classic, estimation_value = 1000000000000000000\<rparr>"]
  by (simp add: sample_externals_def)

text \<open>
  C7 as stated has the result for an absent price never be a null-equivalent. The code
  returns \<^verbatim>\<open>null\<close> there, for which the \<^verbatim>\<open>== null\<close> test of the render holds.
\<close>

theorem fiatValue_counterexample:
  "eq_null (fiatValue sample_externals (Chain ''ethereum'')
      (Some \<lparr>estimation_type = Key_classic, estimation_value = 1000000000000000000\<rparr>)
      (Some \<lparr>price = None\<rparr>))"
  by (simp add: fiatValue_def)

end
